theory Spec2Isabelle
  imports Complex_Main
begin

section \<open>Python string primitives used by the chunker\<close>

text \<open>
  A Python \<open>str\<close> is modelled as a \<open>string\<close>, one \<open>char\<close> per code point (code points
  below 256). Indices are Python integers (\<open>int\<close>): a negative slice bound counts from
  the end of the string and every bound is clamped to \<open>0 .. len\<close>, as
  \<open>text[start:end]\<close> and \<open>text.rfind(sep, start, end)\<close> do.
\<close>

definition slice_index :: "nat \<Rightarrow> int \<Rightarrow> nat" where
  "slice_index n i = (if i < 0 then nat (max 0 (i + int n)) else min n (nat i))"

definition py_slice :: "'a list \<Rightarrow> int \<Rightarrow> int \<Rightarrow> 'a list" where
  "py_slice xs i j =
     (let a = slice_index (length xs) i; b = slice_index (length xs) j
      in take (b - a) (drop a xs))"

definition matches_at :: "string \<Rightarrow> string \<Rightarrow> nat \<Rightarrow> bool" where
  "matches_at text sep i = (take (length sep) (drop i text) = sep)"

text \<open>
  \<open>text.rfind(sep, start, end)\<close>: the highest index \<open>i\<close> with
  \<open>start \<le> i\<close>, \<open>i + len(sep) \<le> end\<close> and \<open>text[i:i+len(sep)] == sep\<close>, after the
  bounds are adjusted as for a slice; \<open>-1\<close> when there is none.
\<close>

definition rfind :: "string \<Rightarrow> string \<Rightarrow> int \<Rightarrow> int \<Rightarrow> int" where
  "rfind text sep i j =
     (let a = slice_index (length text) i; b = slice_index (length text) j;
          hits = filter (\<lambda>k. k + length sep \<le> b \<and> matches_at text sep k) [a..<b]
      in if hits = [] then - 1 else int (last hits))"

text \<open>
  \<open>str.isspace\<close> on the code points below 256: TAB, LF, VT, FF, CR, the separators
  FS, GS, RS, US, the space, NEL and the no-break space.
\<close>

definition is_space :: "char \<Rightarrow> bool" where
  "is_space c = (of_char c \<in> {9::nat, 10, 11, 12, 13, 28, 29, 30, 31, 32, 133, 160})"

definition strip :: "string \<Rightarrow> string" where
  "strip s = rev (dropWhile is_space (rev (dropWhile is_space s)))"

section \<open>The chunker: \<open>chunk_transcript\<close>\<close>

text \<open>
  The inner \<open>for sep in ['. ', '! ', '? ', '\n']\<close> loop: the first separator whose
  last occurrence in the window lies past \<open>start + chunk_size // 2\<close> moves the cut
  just behind that occurrence (\<open>break\<close>); otherwise the cut stays where it was.
\<close>

definition separators :: "string list" where
  "separators = [''. '', ''! '', ''? '', [CHR 0x0A]]"

fun sentence_end :: "string \<Rightarrow> int \<Rightarrow> int \<Rightarrow> int \<Rightarrow> string list \<Rightarrow> int" where
  "sentence_end text start chunk_size e [] = e"
| "sentence_end text start chunk_size e (sep # seps) =
     (let last_sep = rfind text sep start e
      in if last_sep > start + chunk_size div 2 then last_sep + 1
         else sentence_end text start chunk_size e seps)"

text \<open>Lines 47 to 54: the end of the window that starts at \<open>start\<close>.\<close>

definition window_end :: "string \<Rightarrow> int \<Rightarrow> int \<Rightarrow> int" where
  "window_end text chunk_size start =
     (let e = start + chunk_size
      in if e < int (length text) then sentence_end text start chunk_size e separators else e)"

text \<open>
  The \<open>while start < len(text)\<close> loop. It need not terminate, so it is a partial
  function into \<open>option\<close>: \<open>None\<close> is the loop that runs forever.
\<close>

partial_function (option) chunk_loop ::
  "string \<Rightarrow> int \<Rightarrow> int \<Rightarrow> int \<Rightarrow> string list \<Rightarrow> string list option" where
  "chunk_loop text chunk_size overlap start chunks =
     (if start < int (length text) then
        (let e = window_end text chunk_size start;
             chunk = strip (py_slice text start e);
             chunks' = (if chunk \<noteq> [] then chunks @ [chunk] else chunks);
             start' = (if e < int (length text) then e - overlap else int (length text))
         in chunk_loop text chunk_size overlap start' chunks')
      else Some chunks)"

definition chunk_transcript :: "string \<Rightarrow> int \<Rightarrow> int \<Rightarrow> string list option" where
  "chunk_transcript text chunk_size overlap =
     (if text = [] \<or> int (length text) < chunk_size
      then Some (if text \<noteq> [] then [text] else [])
      else chunk_loop text chunk_size overlap 0 [])"

declare chunk_loop.simps [code]

section \<open>The embedding provider\<close>

text \<open>
  \<open>_get_embedding_model()\<close> yields the model or \<open>None\<close> when it cannot be loaded, so
  the functions below take a \<open>provider option\<close>. \<open>model.encode\<close> is called on the list
  of chunks (one vector per chunk) and on the query string (one vector); a call that
  raises is the value \<open>None\<close>. Vectors are lists of reals: the model abstracts from
  floating-point rounding.
\<close>

type_synonym vector = "real list"

record provider =
  encode_batch :: "string list \<Rightarrow> vector list option"
  encode_text :: "string \<Rightarrow> vector option"

section \<open>The database\<close>

text \<open>
  The two tables the module touches. \<open>meetings\<close> is keyed by its primary key \<open>id\<close>;
  \<open>meeting_embeddings\<close> is the list of its rows in storage order (a row is appended
  by an insert). The columns \<open>id\<close> and \<open>created_at\<close> of \<open>meeting_embeddings\<close> are
  never read by the module and are left out. A timestamp is represented by its ISO
  rendering, \<open>None\<close> being SQL \<open>NULL\<close>.
\<close>

record embedding_row =
  meeting_id :: string
  chunk_index :: int
  content :: string
  embedding :: vector

record meeting =
  title :: string
  created_at :: "string option"

record database =
  meetings :: "(string \<times> meeting) list"
  meeting_embeddings :: "embedding_row list"

text \<open>
  What the environment may do to a call: the connection, a statement or the commit
  can raise. \<open>insert_fails_at = Some k\<close> makes \<open>executemany\<close> raise at its \<open>k\<close>-th
  record (counted from 0), after the records before it were written. \<open>close_fails\<close>
  makes \<open>conn.close()\<close> in the \<open>finally\<close> block raise, which replaces the value the
  function was about to return by the one of the \<open>except\<close> branch.
\<close>

record faults =
  connect_fails :: bool
  delete_fails :: bool
  insert_fails_at :: "nat option"
  commit_fails :: bool
  fetch_fails :: bool
  close_fails :: bool

datatype db_error =
  StatementFailed | ForeignKeyViolation | DimensionMismatch | CommitFailed | InvalidLimit

text \<open>The declared dimension of the column \<open>embedding vector(384)\<close>.\<close>

definition embedding_dim :: nat where
  "embedding_dim = 384"

text \<open>\<open>DELETE FROM meeting_embeddings WHERE meeting_id = $1\<close>\<close>

definition delete_meeting :: "faults \<Rightarrow> string \<Rightarrow> database \<Rightarrow> db_error + database" where
  "delete_meeting flt mid db =
     (if delete_fails flt then Inl StatementFailed
      else Inr (db\<lparr>meeting_embeddings :=
                  filter (\<lambda>r. meeting_id r \<noteq> mid) (meeting_embeddings db)\<rparr>))"

text \<open>
  \<open>executemany("INSERT INTO meeting_embeddings ...", records)\<close>: the records are
  inserted one after the other; a record whose \<open>meeting_id\<close> is no key of \<open>meetings\<close>
  violates the foreign key and a vector of the wrong dimension is rejected.
\<close>

fun executemany_insert ::
  "faults \<Rightarrow> nat \<Rightarrow> embedding_row list \<Rightarrow> database \<Rightarrow> db_error + database" where
  "executemany_insert flt k [] db = Inr db"
| "executemany_insert flt k (r # rs) db =
     (if insert_fails_at flt = Some k then Inl StatementFailed
      else if map_of (meetings db) (meeting_id r) = None then Inl ForeignKeyViolation
      else if length (embedding r) \<noteq> embedding_dim then Inl DimensionMismatch
      else executemany_insert flt (Suc k) rs
             (db\<lparr>meeting_embeddings := meeting_embeddings db @ [r]\<rparr>))"

text \<open>
  \<open>async with conn.transaction()\<close>: the body runs on the current state; when it
  raises, or when the commit fails, the state is the one before the transaction and
  the error propagates.
\<close>

definition transaction ::
  "faults \<Rightarrow> (database \<Rightarrow> db_error + database) \<Rightarrow> database \<Rightarrow> db_error option \<times> database" where
  "transaction flt body db =
     (case body db of
        Inl e \<Rightarrow> (Some e, db)
      | Inr db' \<Rightarrow> if commit_fails flt then (Some CommitFailed, db) else (None, db'))"

section \<open>Refresh: \<open>store_meeting_embeddings\<close>\<close>

type_synonym transcript = "string \<Rightarrow> string option"

definition truthy_text :: "transcript \<Rightarrow> bool" where
  "truthy_text t = (case t ''text'' of None \<Rightarrow> False | Some s \<Rightarrow> s \<noteq> [])"

definition get_text :: "transcript \<Rightarrow> string" where
  "get_text t = (case t ''text'' of None \<Rightarrow> [] | Some s \<Rightarrow> s)"

fun join :: "string \<Rightarrow> string list \<Rightarrow> string" where
  "join sep [] = []"
| "join sep [x] = x"
| "join sep (x # y # ys) = x @ sep @ join sep (y # ys)"

text \<open>Line 83: \<open>"\n".join([t.get('text', '') for t in transcripts if t.get('text')])\<close>\<close>

definition full_text_of :: "transcript list \<Rightarrow> string" where
  "full_text_of transcripts = join [CHR 0x0A] (map get_text (filter truthy_text transcripts))"

text \<open>Lines 106 to 111: \<open>enumerate(zip(chunks, embeddings))\<close> turned into records.\<close>

definition build_records :: "string \<Rightarrow> string list \<Rightarrow> vector list \<Rightarrow> embedding_row list" where
  "build_records mid chunks embeddings =
     map (\<lambda>(i, (chunk, v)).
            \<lparr>meeting_id = mid, chunk_index = int i, content = chunk, embedding = v\<rparr>)
         (enumerate 0 (zip chunks embeddings))"

text \<open>
  The function returns the count and, here, the database it leaves behind. The
  result is \<open>None\<close> only if the chunker does not return. \<open>meeting_title\<close> and
  \<open>meeting_date\<close> are used for logging only.
\<close>

definition store_meeting_embeddings ::
  "provider option \<Rightarrow> faults \<Rightarrow> database \<Rightarrow> string \<Rightarrow> string \<Rightarrow> string \<Rightarrow> transcript list
     \<Rightarrow> (int \<times> database) option" where
  "store_meeting_embeddings model flt db mid meeting_title meeting_date transcripts =
     (case model of
        None \<Rightarrow> Some (0, db)
      | Some m \<Rightarrow>
          let full_text = full_text_of transcripts in
          if strip full_text = [] then Some (0, db)
          else
            (case chunk_transcript full_text 500 100 of
               None \<Rightarrow> None
             | Some chunks \<Rightarrow>
                 if chunks = [] then Some (0, db)
                 else
                   (case encode_batch m chunks of
                      None \<Rightarrow> Some (0, db)
                    | Some embeddings \<Rightarrow>
                        if connect_fails flt then Some (0, db)
                        else
                          (case transaction flt
                                  (\<lambda>d. case delete_meeting flt mid d of
                                          Inl e \<Rightarrow> Inl e
                                        | Inr d1 \<Rightarrow>
                                            executemany_insert flt 0
                                              (build_records mid chunks embeddings) d1)
                                  db of
                             (Some e, db') \<Rightarrow> Some (0, db')
                           | (None, db') \<Rightarrow>
                               Some (if close_fails flt then 0 else int (length chunks),
                                     db')))))"

section \<open>Search: \<open>search_context\<close>\<close>

text \<open>
  The operator \<open><=>\<close> of pgvector, the cosine distance, over the reals. (For a zero
  vector pgvector yields NaN; here the quotient is \<open>0\<close> and the distance \<open>1\<close>.)
\<close>

definition dot :: "vector \<Rightarrow> vector \<Rightarrow> real" where
  "dot a b = sum_list (map2 (*) a b)"

definition cosine_distance :: "vector \<Rightarrow> vector \<Rightarrow> real" where
  "cosine_distance a b = 1 - dot a b / (sqrt (dot a a) * sqrt (dot b b))"

record search_result =
  r_text :: string
  r_meeting_id :: string
  r_meeting_title :: string
  r_meeting_date :: string
  r_similarity :: real
  r_chunk_index :: int

text \<open>\<open>if allowed_meeting_ids:\<close> is false for \<open>None\<close> and for the empty list.\<close>

definition truthy_ids :: "string list option \<Rightarrow> bool" where
  "truthy_ids allowed = (case allowed of None \<Rightarrow> False | Some ids \<Rightarrow> ids \<noteq> [])"

definition id_list :: "string list option \<Rightarrow> string list" where
  "id_list allowed = (case allowed of None \<Rightarrow> [] | Some ids \<Rightarrow> ids)"

text \<open>\<open>FROM meeting_embeddings e JOIN meetings m ON e.meeting_id = m.id\<close>\<close>

definition joined_rows :: "database \<Rightarrow> (embedding_row \<times> meeting) list" where
  "joined_rows db =
     concat (map (\<lambda>e. case map_of (meetings db) (meeting_id e) of
                        None \<Rightarrow> []
                      | Some m \<Rightarrow> [(e, m)])
                 (meeting_embeddings db))"

text \<open>
  The query that lines 149 to 178 assemble: the \<open>WHERE e.meeting_id = ANY($2)\<close>
  clause is present only for a truthy allow-list; then
  \<open>ORDER BY e.embedding <=> $1 LIMIT n\<close>. The statement names no second sort key:
  rows at the same distance are returned in storage order. A negative \<open>LIMIT\<close> is
  an error of the statement, and so is a candidate row whose vector has another
  dimension than the query vector.
\<close>

definition candidates :: "database \<Rightarrow> string list option \<Rightarrow> (embedding_row \<times> meeting) list" where
  "candidates db allowed =
     (if truthy_ids allowed
      then filter (\<lambda>(e, m). meeting_id e \<in> set (id_list allowed)) (joined_rows db)
      else joined_rows db)"

definition distance_key :: "vector \<Rightarrow> embedding_row \<times> meeting \<Rightarrow> real" where
  "distance_key query_vector row =
     (case row of (e, m) \<Rightarrow> cosine_distance (embedding e) query_vector)"

definition fetch ::
  "faults \<Rightarrow> database \<Rightarrow> vector \<Rightarrow> string list option \<Rightarrow> int
     \<Rightarrow> db_error + (embedding_row \<times> meeting) list" where
  "fetch flt db query_vector allowed n_results =
     (if fetch_fails flt then Inl StatementFailed
      else if n_results < 0 then Inl InvalidLimit
      else if list_ex (\<lambda>(e, m). length (embedding e) \<noteq> length query_vector)
                (candidates db allowed)
      then Inl DimensionMismatch
      else Inr (take (nat n_results)
                  (sort_key (distance_key query_vector) (candidates db allowed))))"

text \<open>Lines 184 to 191: one result dictionary per row.\<close>

definition format_row :: "vector \<Rightarrow> embedding_row \<times> meeting \<Rightarrow> search_result" where
  "format_row query_vector row =
     (case row of (e, m) \<Rightarrow>
        \<lparr>r_text = content e,
         r_meeting_id = meeting_id e,
         r_meeting_title = title m,
         r_meeting_date = (case created_at m of None \<Rightarrow> [] | Some d \<Rightarrow> d),
         r_similarity = 1 - cosine_distance (embedding e) query_vector,
         r_chunk_index = chunk_index e\<rparr>)"

definition search_context ::
  "provider option \<Rightarrow> faults \<Rightarrow> database \<Rightarrow> string \<Rightarrow> int \<Rightarrow> string list option
     \<Rightarrow> search_result list" where
  "search_context model flt db query n_results allowed_meeting_ids =
     (case model of
        None \<Rightarrow> []
      | Some m \<Rightarrow>
          (case encode_text m query of
             None \<Rightarrow> []
           | Some query_vector \<Rightarrow>
               if connect_fails flt then []
               else
                 (case fetch flt db query_vector allowed_meeting_ids n_results of
                    Inl e \<Rightarrow> []
                  | Inr rows \<Rightarrow>
                      if close_fails flt then [] else map (format_row query_vector) rows)))"

section \<open>Observations used by the properties\<close>

text \<open>The rows stored for one document, in storage order.\<close>

definition rows_of :: "database \<Rightarrow> string \<Rightarrow> embedding_row list" where
  "rows_of db mid = filter (\<lambda>r. meeting_id r = mid) (meeting_embeddings db)"

text \<open>
  The contract of the provider interface: \<open>encode\<close> on a list returns one vector per
  input text.
\<close>

definition provider_ok :: "provider \<Rightarrow> bool" where
  "provider_ok m = (\<forall>cs vs. encode_batch m cs = Some vs \<longrightarrow> length vs = length cs)"

text \<open>A chunk ends in a delimiter: its last character is one of \<open>.\<close>, \<open>!\<close>, \<open>?\<close> or a newline.\<close>

definition ends_in_delimiter :: "string \<Rightarrow> bool" where
  "ends_in_delimiter c =
     (c \<noteq> [] \<and> last c \<in> {CHR ''.'', CHR ''!'', CHR ''?'', CHR 0x0A})"

text \<open>The state a committed refresh of \<open>mid\<close> with these chunks and vectors leaves.\<close>

definition refreshed :: "database \<Rightarrow> string \<Rightarrow> string list \<Rightarrow> vector list \<Rightarrow> database" where
  "refreshed db mid chunks vs =
     db\<lparr>meeting_embeddings :=
          filter (\<lambda>r. meeting_id r \<noteq> mid) (meeting_embeddings db) @
          build_records mid chunks vs\<rparr>"

section \<open>Example inputs\<close>

text \<open>
  A provider that maps every text to the first unit vector of dimension 384, a provider whose calls
  raise, an environment without faults, and a few small stores over the meetings
  \<open>m1\<close> and \<open>m2\<close>.
\<close>

definition first_axis :: vector where
  "first_axis = 1 # replicate 383 0"

definition second_axis :: vector where
  "second_axis = 0 # 1 # replicate 382 0"

definition example_provider :: provider where
  "example_provider =
     \<lparr>encode_batch = (\<lambda>cs. Some (map (\<lambda>c. first_axis) cs)),
      encode_text = (\<lambda>q. Some (first_axis))\<rparr>"

definition broken_provider :: provider where
  "broken_provider = \<lparr>encode_batch = (\<lambda>cs. None), encode_text = (\<lambda>q. None)\<rparr>"

definition no_faults :: faults where
  "no_faults =
     \<lparr>connect_fails = False, delete_fails = False, insert_fails_at = None,
      commit_fails = False, fetch_fails = False, close_fails = False\<rparr>"

definition example_meetings :: "(string \<times> meeting) list" where
  "example_meetings =
     [(''m1'', \<lparr>title = ''Planning'', created_at = Some ''2024-01-01T00:00:00''\<rparr>),
      (''m2'', \<lparr>title = ''Review'', created_at = None\<rparr>)]"

definition empty_store :: database where
  "empty_store = \<lparr>meetings = example_meetings, meeting_embeddings = []\<rparr>"

definition hello_store :: database where
  "hello_store =
     \<lparr>meetings = example_meetings,
      meeting_embeddings =
        [\<lparr>meeting_id = ''m1'', chunk_index = 0, content = ''hello world'',
          embedding = first_axis\<rparr>]\<rparr>"

definition ranked_store :: database where
  "ranked_store =
     \<lparr>meetings = example_meetings,
      meeting_embeddings =
        [\<lparr>meeting_id = ''m1'', chunk_index = 0, content = ''alpha'',
          embedding = second_axis\<rparr>,
         \<lparr>meeting_id = ''m2'', chunk_index = 0, content = ''beta'',
          embedding = first_axis\<rparr>]\<rparr>"

definition tied_store :: database where
  "tied_store =
     \<lparr>meetings = example_meetings,
      meeting_embeddings =
        [\<lparr>meeting_id = ''m2'', chunk_index = 0, content = ''beta'',
          embedding = first_axis\<rparr>,
         \<lparr>meeting_id = ''m1'', chunk_index = 0, content = ''alpha'',
          embedding = first_axis\<rparr>]\<rparr>"

text \<open>
  A transcript of 602 characters with one sentence end, the two chunks the chunker
  cuts it into, two stores in which \<open>m1\<close> and \<open>m2\<close> already hold chunks, and the store
  a refresh of \<open>m1\<close> with that transcript leaves from either of them.
\<close>

definition long_text :: string where
  "long_text = replicate 300 (CHR ''a'') @ ''. '' @ replicate 300 (CHR ''b'')"

definition first_chunk :: string where
  "first_chunk = replicate 300 (CHR ''a'') @ ''.''"

definition second_chunk :: string where
  "second_chunk = replicate 99 (CHR ''a'') @ ''. '' @ replicate 300 (CHR ''b'')"

definition busy_store :: database where
  "busy_store =
     \<lparr>meetings = example_meetings,
      meeting_embeddings =
        [\<lparr>meeting_id = ''m1'', chunk_index = 0, content = ''old one'',
          embedding = first_axis\<rparr>,
         \<lparr>meeting_id = ''m2'', chunk_index = 0, content = ''beta'',
          embedding = second_axis\<rparr>,
         \<lparr>meeting_id = ''m1'', chunk_index = 1, content = ''old two'',
          embedding = second_axis\<rparr>]\<rparr>"

definition stale_store :: database where
  "stale_store =
     \<lparr>meetings = example_meetings,
      meeting_embeddings =
        [\<lparr>meeting_id = ''m1'', chunk_index = 0, content = ''one'',
          embedding = second_axis\<rparr>,
         \<lparr>meeting_id = ''m1'', chunk_index = 1, content = ''two'',
          embedding = second_axis\<rparr>,
         \<lparr>meeting_id = ''m1'', chunk_index = 2, content = ''three'',
          embedding = first_axis\<rparr>,
         \<lparr>meeting_id = ''m2'', chunk_index = 0, content = ''beta'',
          embedding = second_axis\<rparr>]\<rparr>"

definition long_store :: database where
  "long_store =
     \<lparr>meetings = example_meetings,
      meeting_embeddings =
        [\<lparr>meeting_id = ''m2'', chunk_index = 0, content = ''beta'',
          embedding = second_axis\<rparr>,
         \<lparr>meeting_id = ''m1'', chunk_index = 0, content = first_chunk,
          embedding = first_axis\<rparr>,
         \<lparr>meeting_id = ''m1'', chunk_index = 1, content = second_chunk,
          embedding = first_axis\<rparr>]\<rparr>"

section \<open>Properties of the chunker\<close>

subsection \<open>One iteration of the loop\<close>

lemma chunk_loop_step:
  "start < int (length t) \<Longrightarrow>
   chunk_loop t c ov start chunks =
     chunk_loop t c ov
       (if window_end t c start < int (length t) then window_end t c start - ov
        else int (length t))
       (if strip (py_slice t start (window_end t c start)) \<noteq> []
        then chunks @ [strip (py_slice t start (window_end t c start))] else chunks)"
  by (subst chunk_loop.simps) (simp add: Let_def)

lemma chunk_loop_stop:
  "\<not> start < int (length t) \<Longrightarrow> chunk_loop t c ov start chunks = Some chunks"
  by (subst chunk_loop.simps) simp

text \<open>
  The cut is either the raw window end or lies behind an accepted separator, which
  is itself past the midpoint of the window.
\<close>

lemma sentence_end_cases:
  "sentence_end t start chunk_size e seps = e \<or>
   start + chunk_size div 2 + 2 \<le> sentence_end t start chunk_size e seps"
  by (induction seps) (auto simp: Let_def)

lemma window_end_cases:
  "window_end t chunk_size start = start + chunk_size \<or>
   start + chunk_size div 2 + 2 \<le> window_end t chunk_size start"
  using sentence_end_cases [of t start chunk_size "start + chunk_size" separators]
  by (auto simp: window_end_def Let_def)

lemma window_end_lower:
  "start + min chunk_size (chunk_size div 2 + 2) \<le> window_end t chunk_size start"
  using window_end_cases [of t chunk_size start] by linarith

subsection \<open>Termination\<close>

lemma chunk_loop_terminates:
  assumes "overlap < chunk_size" and "overlap \<le> chunk_size div 2 + 1"
  shows "\<exists>cs. chunk_loop t chunk_size overlap start chunks = Some cs"
proof (induction "nat (int (length t) - start)" arbitrary: start chunks rule: less_induct)
  case less
  show ?case
  proof (cases "start < int (length t)")
    case False
    then show ?thesis by (simp add: chunk_loop_stop)
  next
    case True
    define e where "e = window_end t chunk_size start"
    define start' where
      "start' = (if e < int (length t) then e - overlap else int (length t))"
    define chunks' where
      "chunks' = (if strip (py_slice t start e) \<noteq> []
                  then chunks @ [strip (py_slice t start e)] else chunks)"
    have "start < e - overlap"
      using window_end_lower [of start chunk_size t] assms unfolding e_def by linarith
    with True have "start < start'"
      by (simp add: start'_def)
    with True have "nat (int (length t) - start') < nat (int (length t) - start)"
      by linarith
    from less [OF this] obtain cs where
      "chunk_loop t chunk_size overlap start' chunks' = Some cs"
      by blast
    moreover have "chunk_loop t chunk_size overlap start chunks =
        chunk_loop t chunk_size overlap start' chunks'"
      unfolding start'_def chunks'_def e_def by (rule chunk_loop_step [OF True])
    ultimately show ?thesis by simp
  qed
qed

lemma chunk_transcript_default_total:
  "\<exists>chunks. chunk_transcript t 500 100 = Some chunks"
proof -
  have "\<exists>cs. chunk_loop t 500 100 0 [] = Some cs"
    by (rule chunk_loop_terminates) simp_all
  then show ?thesis by (simp add: chunk_transcript_def)
qed

subsection \<open>Loops that never return\<close>

lemma no_return_equal_overlap:
  assumes ret: "chunk_loop t c ov s cs = Some r"
  shows "\<not> (t = ''abcdefgh'' \<and> c = 4 \<and> ov = 4 \<and> s = 0)"
proof (rule chunk_loop.raw_induct
    [where P = "\<lambda>t c ov s cs r. \<not> (t = ''abcdefgh'' \<and> c = 4 \<and> ov = 4 \<and> s = 0)",
     OF _ ret],
    goal_cases)
  case (1 f t c ov s cs r)
  show ?case
  proof
    assume A: "t = ''abcdefgh'' \<and> c = 4 \<and> ov = 4 \<and> s = 0"
    have w: "window_end ''abcdefgh'' 4 0 = 4" by code_simp
    from 1(2) A w obtain cs' where "f ''abcdefgh'' 4 4 0 cs' = Some r"
      by (simp add: Let_def split: if_splits)
    from 1(1) [OF this] show False by simp
  qed
qed

lemma chunk_loop_equal_overlap: "chunk_loop ''abcdefgh'' 4 4 0 cs = None"
  using no_return_equal_overlap [of "''abcdefgh''" 4 4 0 cs]
  by (cases "chunk_loop ''abcdefgh'' 4 4 0 cs") auto

text \<open>
  With \<open>chunk_size = 10\<close> and \<open>overlap = 9\<close> the separator at index 6 is accepted,
  the cut is 7 and the cursor becomes \<open>7 - 9 = -2\<close>; the windows from \<open>-2\<close> and \<open>-1\<close>
  are empty slices and lead back to 0.
\<close>

lemma no_return_large_overlap:
  assumes ret: "chunk_loop t c ov s cs = Some r"
  shows "\<not> (t = ''abcdef. ghijklmnopqrst'' \<and> c = 10 \<and> ov = 9 \<and>
            (s = 0 \<or> s = - 2 \<or> s = - 1))"
proof (rule chunk_loop.raw_induct
    [where P = "\<lambda>t c ov s cs r. \<not> (t = ''abcdef. ghijklmnopqrst'' \<and> c = 10 \<and> ov = 9 \<and>
            (s = 0 \<or> s = - 2 \<or> s = - 1))",
     OF _ ret],
    goal_cases)
  case (1 f t c ov s cs r)
  show ?case
  proof
    assume A: "t = ''abcdef. ghijklmnopqrst'' \<and> c = 10 \<and> ov = 9 \<and>
      (s = 0 \<or> s = - 2 \<or> s = - 1)"
    have w: "window_end ''abcdef. ghijklmnopqrst'' 10 0 = 7"
      "window_end ''abcdef. ghijklmnopqrst'' 10 (- 2) = 8"
      "window_end ''abcdef. ghijklmnopqrst'' 10 (- 1) = 9"
      by code_simp+
    from 1(2) A w obtain cs' s' where
      "f ''abcdef. ghijklmnopqrst'' 10 9 s' cs' = Some r"
      "s' = 0 \<or> s' = - 2 \<or> s' = - 1"
      by (auto simp add: Let_def split: if_splits)
    from 1(1) [OF this(1)] this(2) show False by simp
  qed
qed

lemma chunk_loop_large_overlap: "chunk_loop ''abcdef. ghijklmnopqrst'' 10 9 0 cs = None"
  using no_return_large_overlap [of "''abcdef. ghijklmnopqrst''" 10 9 0 cs]
  by (cases "chunk_loop ''abcdef. ghijklmnopqrst'' 10 9 0 cs") auto

subsection \<open>The scenario \<open>chunk("A. B. C.", 4, 1)\<close>\<close>

lemma scenario_windows:
  "window_end ''A. B. C.'' 4 0 = 4"
  "window_end ''A. B. C.'' 4 3 = 7"
  "window_end ''A. B. C.'' 4 6 = 10"
  by code_simp+

lemma scenario_slices:
  "strip (py_slice ''A. B. C.'' 0 4) = ''A. B''"
  "strip (py_slice ''A. B. C.'' 3 7) = ''B. C''"
  "strip (py_slice ''A. B. C.'' 6 10) = ''C.''"
  by code_simp+

lemma scenario_chunks:
  "chunk_transcript ''A. B. C.'' 4 1 = Some [''A. B'', ''B. C'', ''C.'']"
  by (simp add: chunk_transcript_def chunk_loop_step chunk_loop_stop
      scenario_windows scenario_slices)

subsection \<open>The claims about the chunker\<close>

text \<open>
  C6 (as amended). \<open>chunk_transcript\<close> returns for every text when
  \<open>overlap < chunk_size\<close> and \<open>overlap \<le> chunk_size div 2 + 1\<close>, which holds for the
  defaults 500 and 100: every window ends at least
  \<open>min chunk_size (chunk_size div 2 + 2)\<close> characters behind its start, so the cursor
  of a non-final iteration advances by at least that much minus \<open>overlap\<close>, a positive
  amount.
\<close>

theorem chunk_transcript_terminates:
  assumes "overlap < chunk_size" and "overlap \<le> chunk_size div 2 + 1"
  shows "(\<exists>chunks. chunk_transcript t chunk_size overlap = Some chunks) \<and>
         0 < min chunk_size (chunk_size div 2 + 2) - overlap \<and>
         (\<forall>start. start + (min chunk_size (chunk_size div 2 + 2) - overlap)
                    \<le> window_end t chunk_size start - overlap)"
proof -
  have "\<exists>cs. chunk_loop t chunk_size overlap 0 [] = Some cs"
    using assms by (rule chunk_loop_terminates)
  then have "\<exists>chunks. chunk_transcript t chunk_size overlap = Some chunks"
    by (simp add: chunk_transcript_def)
  moreover have "0 < min chunk_size (chunk_size div 2 + 2) - overlap"
    using assms by linarith
  moreover have "start + (min chunk_size (chunk_size div 2 + 2) - overlap)
      \<le> window_end t chunk_size start - overlap" for start
    using window_end_lower [of start chunk_size t] by linarith
  ultimately show ?thesis by blast
qed

theorem chunk_transcript_terminates_witness:
  "(1::int) < 4 \<and> (1::int) \<le> 4 div 2 + 1 \<and>
   chunk_transcript ''A. B. C.'' 4 1 = Some [''A. B'', ''B. C'', ''C.''] \<and>
   (\<exists>chunks. chunk_transcript ''A. B. C.'' 4 1 = Some chunks) \<and>
   (0::int) + (min 4 (4 div 2 + 2) - 1) \<le> window_end ''A. B. C.'' 4 0 - 1"
proof -
  have h1: "(1::int) < 4" and h2: "(1::int) \<le> 4 div 2 + 1" by simp_all
  from chunk_transcript_terminates [OF h1 h2, of "''A. B. C.''"]
  have "(\<exists>chunks. chunk_transcript ''A. B. C.'' 4 1 = Some chunks) \<and>
        (0::int) + (min 4 (4 div 2 + 2) - 1) \<le> window_end ''A. B. C.'' 4 0 - 1"
    by blast
  with h1 h2 scenario_chunks show ?thesis by blast
qed

text \<open>
  C6 (as stated) fails. With \<open>chunk_size = 10\<close> and \<open>overlap = 9\<close>, which satisfies
  \<open>overlap < chunk_size\<close>, the loop never returns; with \<open>chunk_size = overlap = 4\<close>
  the call either never returns or returns an ordinary result: there is no
  configuration error.
\<close>

theorem chunk_transcript_diverges:
  "(9::int) < 10 \<and>
   chunk_transcript ''abcdef. ghijklmnopqrst'' 10 9 = None \<and>
   chunk_transcript ''abcdefgh'' 4 4 = None \<and>
   chunk_transcript ''ab'' 4 4 = Some [''ab'']"
  by (simp add: chunk_transcript_def chunk_loop_large_overlap chunk_loop_equal_overlap)

text \<open>
  C7. The claim asks for the trimmed text (and for no chunk when trimming leaves
  nothing) whenever the text is shorter than \<open>chunk_size\<close>. The early return of line 41
  hands back the text as it is, while the loop strips every chunk and drops the
  empty ones: at \<open>" a "\<close> the result is the untrimmed text, at three spaces it is a
  chunk of white space.
\<close>

theorem chunk_transcript_short_untrimmed:
  "chunk_transcript '' a '' 500 100 = Some ['' a ''] \<and> strip '' a '' = ''a'' \<and>
   chunk_transcript ''   '' 500 100 = Some [''   ''] \<and> strip ''   '' = [] \<and>
   chunk_transcript [] 500 100 = Some []"
proof -
  have "strip '' a '' = ''a''" "strip ''   '' = []" by code_simp+
  then show ?thesis by (simp add: chunk_transcript_def)
qed

text \<open>
  C9 (as amended). \<open>chunk("A. B. C.", 4, 1)\<close> returns the three chunks \<open>"A. B"\<close>,
  \<open>"B. C"\<close> and \<open>"C."\<close>: in the windows from 0 and from 3 the last \<open>". "\<close> is at 1
  and at 4, not past the midpoints 2 and 5, so both windows are cut at their raw end,
  inside a sentence; only the last chunk ends in a delimiter.
\<close>

theorem chunk_scenario_hard_cuts:
  "chunk_transcript ''A. B. C.'' 4 1 = Some [''A. B'', ''B. C'', ''C.''] \<and>
   rfind ''A. B. C.'' ''. '' 0 4 = 1 \<and> rfind ''A. B. C.'' ''. '' 3 7 = 4 \<and>
   window_end ''A. B. C.'' 4 0 = 0 + 4 \<and> window_end ''A. B. C.'' 4 3 = 3 + 4 \<and>
   filter ends_in_delimiter [''A. B'', ''B. C'', ''C.''] = [''C.'']"
proof -
  have "rfind ''A. B. C.'' ''. '' 0 4 = 1" "rfind ''A. B. C.'' ''. '' 3 7 = 4"
    by code_simp+
  moreover have "filter ends_in_delimiter [''A. B'', ''B. C'', ''C.''] = [''C.'']"
    by (simp add: ends_in_delimiter_def)
  ultimately show ?thesis
    by (simp add: scenario_chunks scenario_windows)
qed

text \<open>
  C9 (as stated) fails: the first two chunks of the scenario end inside a sentence,
  not in a delimiter.
\<close>

theorem chunk_scenario_mid_sentence:
  "chunk_transcript ''A. B. C.'' 4 1 = Some [''A. B'', ''B. C'', ''C.''] \<and>
   \<not> ends_in_delimiter ''A. B'' \<and> \<not> ends_in_delimiter ''B. C''"
  by (simp add: scenario_chunks ends_in_delimiter_def)

section \<open>Properties of refresh and of the example vectors\<close>

subsection \<open>The records of one refresh\<close>

lemma executemany_insert_Inr:
  "executemany_insert flt k rs d = Inr d' \<Longrightarrow>
   d' = d\<lparr>meeting_embeddings := meeting_embeddings d @ rs\<rparr>"
proof (induction rs arbitrary: k d)
  case Nil
  then show ?case by simp
next
  case (Cons r rs)
  from Cons.prems have
    "executemany_insert flt (Suc k) rs (d\<lparr>meeting_embeddings := meeting_embeddings d @ [r]\<rparr>) = Inr d'"
    by (simp split: if_splits)
  from Cons.IH [OF this] show ?case by simp
qed

lemma map_enumerate_snd:
  "map (\<lambda>(i, x). f x) (enumerate n xs) = map f xs"
proof -
  have "map (\<lambda>(i, x). f x) (enumerate n xs) = map (f \<circ> snd) (enumerate n xs)"
    by (simp add: split_def comp_def)
  also have "\<dots> = map f (map snd (enumerate n xs))"
    by (simp only: map_map)
  also have "\<dots> = map f xs"
    by (simp only: map_snd_enumerate)
  finally show ?thesis .
qed

lemma map_enumerate_fst:
  "map (\<lambda>(i, x). g i) (enumerate n xs) = map g [n..<n + length xs]"
proof -
  have "map (\<lambda>(i, x). g i) (enumerate n xs) = map (g \<circ> fst) (enumerate n xs)"
    by (simp add: split_def comp_def)
  also have "\<dots> = map g (map fst (enumerate n xs))"
    by (simp only: map_map)
  also have "\<dots> = map g [n..<n + length xs]"
    by (simp only: map_fst_enumerate)
  finally show ?thesis .
qed

lemma build_records_length:
  "length (build_records mid chunks vs) = min (length chunks) (length vs)"
  by (simp add: build_records_def)

lemma build_records_meeting_id:
  "r \<in> set (build_records mid chunks vs) \<Longrightarrow> meeting_id r = mid"
  by (auto simp: build_records_def)

lemma build_records_content:
  "map content (build_records mid chunks vs) = take (length vs) chunks"
proof -
  have "map content (build_records mid chunks vs) =
      map (\<lambda>(i, x). fst x) (enumerate 0 (zip chunks vs))"
    by (simp add: build_records_def split_def)
  also have "\<dots> = map fst (zip chunks vs)"
    by (rule map_enumerate_snd)
  also have "\<dots> = take (length vs) chunks"
    by (simp add: map_fst_zip_take min_def)
  finally show ?thesis .
qed

lemma build_records_chunk_index:
  "map chunk_index (build_records mid chunks vs) =
   map int [0..<min (length chunks) (length vs)]"
proof -
  have "map chunk_index (build_records mid chunks vs) =
      map (\<lambda>(i, x). int i) (enumerate 0 (zip chunks vs))"
    by (simp add: build_records_def split_def)
  also have "\<dots> = map int [0..<0 + length (zip chunks vs)]"
    by (rule map_enumerate_fst)
  finally show ?thesis by simp
qed

lemma store_cases:
  assumes "store_meeting_embeddings model flt db mid ti da ts = Some (n, db')"
  shows "(n = 0 \<and> db' = db) \<or>
         (\<exists>m chunks vs. model = Some m \<and>
            chunk_transcript (full_text_of ts) 500 100 = Some chunks \<and> chunks \<noteq> [] \<and>
            encode_batch m chunks = Some vs \<and> (n = int (length chunks) \<or> n = 0) \<and>
            db' = refreshed db mid chunks vs)"
  using assms
  by (auto simp: store_meeting_embeddings_def Let_def transaction_def delete_meeting_def
      refreshed_def
      split: option.splits if_splits sum.splits prod.splits dest!: executemany_insert_Inr)


lemma rows_of_refreshed:
  "rows_of (refreshed db mid chunks vs) mid = build_records mid chunks vs"
  by (auto simp: rows_of_def refreshed_def filter_id_conv filter_empty_conv
      dest: build_records_meeting_id)

lemma rows_of_refreshed_other:
  "mid' \<noteq> mid \<Longrightarrow> rows_of (refreshed db mid chunks vs) mid' = rows_of db mid'"
proof -
  assume "mid' \<noteq> mid"
  then have "filter (\<lambda>r. meeting_id r = mid') (build_records mid chunks vs) = []"
    by (auto simp: filter_empty_conv dest: build_records_meeting_id)
  moreover have "filter (\<lambda>r. meeting_id r = mid') (filter (\<lambda>r. meeting_id r \<noteq> mid) xs) =
      filter (\<lambda>r. meeting_id r = mid') xs" for xs
    using \<open>mid' \<noteq> mid\<close> by (induction xs) auto
  ultimately show ?thesis by (simp add: rows_of_def refreshed_def)
qed

lemma store_total:
  "\<exists>n db'. store_meeting_embeddings model flt db mid ti da ts = Some (n, db')"
proof -
  obtain chunks where "chunk_transcript (full_text_of ts) 500 100 = Some chunks"
    using chunk_transcript_default_total by blast
  then show ?thesis
    by (auto simp: store_meeting_embeddings_def Let_def split: option.splits prod.splits)
qed

subsection \<open>Cosine distance\<close>

lemma dot_Cons: "dot (x # xs) (y # ys) = x * y + dot xs ys"
  by (simp add: dot_def)

lemma dot_Nil: "dot [] ys = 0" "dot xs [] = 0"
  by (simp_all add: dot_def)

lemma dot_self_nonneg: "0 \<le> dot v v"
  by (induction v) (simp_all add: dot_Cons dot_Nil)

lemma cosine_distance_self: "dot v v \<noteq> 0 \<Longrightarrow> cosine_distance v v = 0"
  using dot_self_nonneg [of v] by (simp add: cosine_distance_def)

lemma dot_replicate_zero: "length ys = n \<Longrightarrow> dot (replicate n 0) ys = 0"
  by (induction n arbitrary: ys) (auto simp: dot_Cons dot_Nil length_Suc_conv)

lemma axis_length: "length first_axis = 384" "length second_axis = 384"
  by (simp_all add: first_axis_def second_axis_def)

lemma axis_dots:
  "dot first_axis first_axis = 1"
  "dot second_axis second_axis = 1"
  "dot second_axis first_axis = 0"
  "dot first_axis second_axis = 0"
proof -
  have r: "replicate 383 (0::real) = 0 # replicate 382 0"
    by (simp only: replicate_Suc [symmetric]) simp
  show "dot first_axis first_axis = 1"
    by (simp add: first_axis_def dot_Cons dot_replicate_zero)
  show "dot second_axis second_axis = 1"
    by (simp add: second_axis_def dot_Cons dot_replicate_zero)
  show "dot second_axis first_axis = 0"
    unfolding first_axis_def second_axis_def r by (simp add: dot_Cons dot_replicate_zero)
  show "dot first_axis second_axis = 0"
    unfolding first_axis_def second_axis_def r by (simp add: dot_Cons dot_replicate_zero)
qed

lemma axis_distances:
  "cosine_distance first_axis first_axis = 0"
  "cosine_distance second_axis first_axis = 1"
  unfolding cosine_distance_def axis_dots by simp_all

lemma axes_differ: "second_axis \<noteq> first_axis"
  by (simp add: first_axis_def second_axis_def)

subsection \<open>Faults and committed refreshes\<close>

lemma executemany_insert_fault:
  "executemany_insert flt k rs d = Inr d' \<Longrightarrow> insert_fails_at flt = Some j \<Longrightarrow>
   j < k \<or> k + length rs \<le> j"
proof (induction rs arbitrary: k d)
  case Nil
  then show ?case by simp linarith
next
  case (Cons r rs)
  from Cons.prems(1) have ne: "insert_fails_at flt \<noteq> Some k" and
    "executemany_insert flt (Suc k) rs (d\<lparr>meeting_embeddings := meeting_embeddings d @ [r]\<rparr>) = Inr d'"
    by (simp_all split: if_splits)
  from Cons.IH [OF this(2) Cons.prems(2)] ne Cons.prems(2) show ?case
    by (cases "j = k") auto
qed

lemma store_outcome:
  assumes st: "store_meeting_embeddings model flt db mid ti da ts = Some (n, db')"
  shows "(n = 0 \<and> db' = db) \<or>
         (\<exists>m chunks vs. model = Some m \<and>
            chunk_transcript (full_text_of ts) 500 100 = Some chunks \<and> chunks \<noteq> [] \<and>
            strip (full_text_of ts) \<noteq> [] \<and>
            encode_batch m chunks = Some vs \<and>
            n = (if close_fails flt then 0 else int (length chunks)) \<and>
            db' = refreshed db mid chunks vs \<and>
            \<not> connect_fails flt \<and> \<not> delete_fails flt \<and> \<not> commit_fails flt \<and>
            (\<forall>j. insert_fails_at flt = Some j \<longrightarrow> min (length chunks) (length vs) \<le> j))"
proof (cases "n = 0 \<and> db' = db")
  case True
  then show ?thesis by simp
next
  case False
  define d where
    "d = db\<lparr>meeting_embeddings := filter (\<lambda>r. meeting_id r \<noteq> mid) (meeting_embeddings db)\<rparr>"
  from st False obtain m chunks vs where
    f: "model = Some m" "chunk_transcript (full_text_of ts) 500 100 = Some chunks"
      "chunks \<noteq> []" "strip (full_text_of ts) \<noteq> []" "encode_batch m chunks = Some vs"
      "n = (if close_fails flt then 0 else int (length chunks))"
      "\<not> connect_fails flt" "\<not> delete_fails flt" "\<not> commit_fails flt"
    and ins: "executemany_insert flt 0 (build_records mid chunks vs) d = Inr db'"
    unfolding d_def
    by (auto simp: store_meeting_embeddings_def Let_def transaction_def delete_meeting_def
        split: option.splits if_splits sum.splits prod.splits)
  from executemany_insert_Inr [OF ins] have "db' = refreshed db mid chunks vs"
    by (simp add: refreshed_def d_def)
  moreover have "min (length chunks) (length vs) \<le> j" if "insert_fails_at flt = Some j" for j
    using executemany_insert_fault [OF ins that] by (simp add: build_records_length)
  ultimately show ?thesis using f by blast
qed

lemma store_success:
  assumes "store_meeting_embeddings model flt db mid ti da ts = Some (n, db')" and "0 < n"
  shows "\<exists>m chunks vs. model = Some m \<and>
            chunk_transcript (full_text_of ts) 500 100 = Some chunks \<and> chunks \<noteq> [] \<and>
            strip (full_text_of ts) \<noteq> [] \<and>
            encode_batch m chunks = Some vs \<and> n = int (length chunks) \<and>
            db' = refreshed db mid chunks vs \<and>
            \<not> connect_fails flt \<and> \<not> delete_fails flt \<and> \<not> commit_fails flt \<and>
            \<not> close_fails flt \<and>
            (\<forall>j. insert_fails_at flt = Some j \<longrightarrow> min (length chunks) (length vs) \<le> j)"
  using store_outcome [OF assms(1)] assms(2)
  by (auto split: if_splits)

lemma strip_hello: "strip ''hello world'' = ''hello world''"
  by code_simp

lemma full_text_hello: "full_text_of [[''text'' \<mapsto> ''hello world'']] = ''hello world''"
  by (simp add: full_text_of_def truthy_text_def get_text_def)

lemma chunks_hello: "chunk_transcript ''hello world'' 500 100 = Some [''hello world'']"
  by (simp add: chunk_transcript_def)

lemma hello_records:
  "build_records ''m1'' [''hello world''] [first_axis] =
     [\<lparr>meeting_id = ''m1'', chunk_index = 0, content = ''hello world'',
       embedding = first_axis\<rparr>]"
  by (simp add: build_records_def)

lemma refresh_hello:
  "store_meeting_embeddings (Some example_provider) no_faults empty_store ''m1'' ti da
     [[''text'' \<mapsto> ''hello world'']] = Some (1, hello_store)"
  by (simp add: store_meeting_embeddings_def full_text_hello strip_hello chunks_hello
      example_provider_def no_faults_def transaction_def delete_meeting_def hello_records
      empty_store_def hello_store_def example_meetings_def axis_length embedding_dim_def)

lemma refresh_empty_input:
  "store_meeting_embeddings (Some example_provider) no_faults hello_store ''m1'' ti da [] =
     Some (0, hello_store)"
proof -
  have "strip (full_text_of []) = []"
    by (simp add: full_text_of_def strip_def)
  then show ?thesis by (simp add: store_meeting_embeddings_def)
qed

lemma refresh_insert_fault:
  "store_meeting_embeddings (Some example_provider) (no_faults\<lparr>insert_fails_at := Some 0\<rparr>)
     hello_store ''m1'' ti da [[''text'' \<mapsto> ''hello world'']] = Some (0, hello_store)"
  by (simp add: store_meeting_embeddings_def full_text_hello strip_hello chunks_hello
      example_provider_def no_faults_def transaction_def delete_meeting_def hello_records)

lemma example_provider_ok: "provider_ok example_provider"
  by (auto simp: provider_ok_def example_provider_def)

section \<open>Properties of search\<close>

subsection \<open>The rows behind a search result\<close>

lemma joined_rows_mem:
  "(e, m) \<in> set (joined_rows db) \<Longrightarrow>
   e \<in> set (meeting_embeddings db) \<and> map_of (meetings db) (meeting_id e) = Some m"
  by (auto simp: joined_rows_def split: option.splits)

lemma candidates_joined: "set (candidates db allowed) \<subseteq> set (joined_rows db)"
  by (auto simp: candidates_def)

lemma candidates_allowed:
  "ids \<noteq> [] \<Longrightarrow> (e, m) \<in> set (candidates db (Some ids)) \<Longrightarrow> meeting_id e \<in> set ids"
  by (simp add: candidates_def truthy_ids_def id_list_def)

lemma search_context_eq:
  "encode_text m q = Some qv \<Longrightarrow>
   search_context (Some m) flt db q k allowed =
     (if connect_fails flt \<or> fetch_fails flt \<or> close_fails flt \<or> k < 0 \<or>
         list_ex (\<lambda>(e, m). length (embedding e) \<noteq> length qv) (candidates db allowed)
      then []
      else map (format_row qv)
             (take (nat k) (sort_key (distance_key qv) (candidates db allowed))))"
  by (simp add: search_context_def fetch_def)

lemma search_context_rows:
  assumes "r \<in> set (search_context model flt db q k allowed)"
  shows "\<exists>m qv e me. model = Some m \<and> encode_text m q = Some qv \<and>
           (e, me) \<in> set (candidates db allowed) \<and> r = format_row qv (e, me)"
proof -
  from assms obtain m where "model = Some m"
    by (cases model) (auto simp: search_context_def)
  moreover from assms this obtain qv where "encode_text m q = Some qv"
    by (cases "encode_text m q") (auto simp: search_context_def)
  ultimately have m: "model = Some m" "encode_text m q = Some qv"
    by simp_all
  with assms have "r \<in> format_row qv `
      set (take (nat k) (sort_key (distance_key qv) (candidates db allowed)))"
    by (simp add: search_context_eq split: if_splits)
  then obtain row where "row \<in> set (candidates db allowed)" "r = format_row qv row"
    using set_take_subset [of "nat k" "sort_key (distance_key qv) (candidates db allowed)"]
    by auto
  with m show ?thesis by (cases row) auto
qed

lemma format_row_fields:
  "r_meeting_id (format_row qv (e, m)) = meeting_id e"
  "r_chunk_index (format_row qv (e, m)) = chunk_index e"
  "r_text (format_row qv (e, m)) = content e"
  "r_similarity (format_row qv (e, m)) = 1 - cosine_distance (embedding e) qv"
  by (simp_all add: format_row_def)

text \<open>
  C2. For a non-empty allow-list \<open>ids\<close>, every match that \<open>search_context\<close> returns
  carries a \<open>meeting_id\<close> from \<open>ids\<close>, for every query, limit, store and environment.
\<close>

theorem search_respects_allow_list:
  assumes "ids \<noteq> []"
  shows "\<forall>r \<in> set (search_context model flt db q k (Some ids)). r_meeting_id r \<in> set ids"
proof
  fix r
  assume "r \<in> set (search_context model flt db q k (Some ids))"
  from search_context_rows [OF this] obtain qv e me where
    "(e, me) \<in> set (candidates db (Some ids))" "r = format_row qv (e, me)"
    by blast
  with candidates_allowed [OF assms] show "r_meeting_id r \<in> set ids"
    by (simp add: format_row_fields)
qed

text \<open>
  C10. An empty allow-list is treated like \<open>None\<close>: the query has no \<open>WHERE\<close> clause,
  every joined row is a candidate, and the matches are those of the unrestricted
  search.
\<close>

theorem search_empty_allow_list_unfiltered:
  "search_context model flt db q k (Some []) = search_context model flt db q k None \<and>
   candidates db (Some []) = joined_rows db"
proof -
  have c: "candidates db (Some []) = candidates db None" "candidates db None = joined_rows db"
    by (simp_all add: candidates_def truthy_ids_def)
  then have "fetch flt db qv (Some []) k = fetch flt db qv None k" for qv
    by (simp add: fetch_def)
  then have "search_context model flt db q k (Some []) = search_context model flt db q k None"
    by (simp add: search_context_def split: option.splits)
  with c show ?thesis by simp
qed

lemma ranked_candidates:
  "candidates ranked_store None =
     [(\<lparr>meeting_id = ''m1'', chunk_index = 0, content = ''alpha'', embedding = second_axis\<rparr>,
       \<lparr>title = ''Planning'', created_at = Some ''2024-01-01T00:00:00''\<rparr>),
      (\<lparr>meeting_id = ''m2'', chunk_index = 0, content = ''beta'', embedding = first_axis\<rparr>,
       \<lparr>title = ''Review'', created_at = None\<rparr>)]"
  "candidates ranked_store (Some [''m1'']) =
     [(\<lparr>meeting_id = ''m1'', chunk_index = 0, content = ''alpha'', embedding = second_axis\<rparr>,
       \<lparr>title = ''Planning'', created_at = Some ''2024-01-01T00:00:00''\<rparr>)]"
  by (simp_all add: candidates_def truthy_ids_def id_list_def joined_rows_def ranked_store_def
      example_meetings_def)

lemma ranked_search_all:
  "search_context (Some example_provider) no_faults ranked_store q 5 None =
     [\<lparr>r_text = ''beta'', r_meeting_id = ''m2'', r_meeting_title = ''Review'',
       r_meeting_date = [], r_similarity = 1, r_chunk_index = 0\<rparr>,
      \<lparr>r_text = ''alpha'', r_meeting_id = ''m1'', r_meeting_title = ''Planning'',
       r_meeting_date = ''2024-01-01T00:00:00'', r_similarity = 0, r_chunk_index = 0\<rparr>]"
  by (simp add: search_context_def fetch_def example_provider_def no_faults_def
      ranked_candidates distance_key_def axis_distances axis_length format_row_def)

lemma ranked_search_m1:
  "search_context (Some example_provider) no_faults ranked_store q 5 (Some [''m1'']) =
     [\<lparr>r_text = ''alpha'', r_meeting_id = ''m1'', r_meeting_title = ''Planning'',
       r_meeting_date = ''2024-01-01T00:00:00'', r_similarity = 0, r_chunk_index = 0\<rparr>]"
  by (simp add: search_context_def fetch_def example_provider_def no_faults_def
      ranked_candidates distance_key_def axis_distances axis_length format_row_def)

subsection \<open>Ranking\<close>

lemma sort_key_hd_least:
  assumes "x \<in> set xs"
  shows "sort_key f xs \<noteq> [] \<and> hd (sort_key f xs) \<in> set xs \<and> f (hd (sort_key f xs)) \<le> f x"
proof -
  let ?S = "sort_key f xs"
  from assms have ne: "?S \<noteq> []" by (metis empty_iff set_empty set_sort)
  then obtain y ys where S: "?S = y # ys" by (cases ?S) auto
  have "sorted (map f ?S)" by (rule sorted_sort_key)
  with S have "\<forall>z \<in> set ys. f y \<le> f z" by simp
  moreover from assms have "x \<in> set ?S" by simp
  ultimately have "f y \<le> f x" using S by auto
  moreover have "y \<in> set xs" using S by (metis list.set_intros(1) set_sort)
  ultimately show ?thesis using S by simp
qed

lemma search_sorted:
  "sorted_wrt (\<lambda>a b. r_similarity b \<le> r_similarity a)
     (map (format_row qv) (take k (sort_key (distance_key qv) cands)))"
proof -
  have "sorted (map (distance_key qv) (take k (sort_key (distance_key qv) cands)))"
    unfolding take_map [symmetric] by (rule sorted_wrt_take) (rule sorted_sort_key)
  then have "sorted_wrt (\<lambda>x y. distance_key qv x \<le> distance_key qv y)
      (take k (sort_key (distance_key qv) cands))"
    by (simp add: sorted_map)
  then show ?thesis
    by (simp add: sorted_wrt_map format_row_def distance_key_def split_def)
qed

text \<open>
  C5 (as amended). When the query is embedded as \<open>qv\<close>, \<open>search_context\<close> returns at
  most \<open>max 0 n_results\<close> matches, sorted by similarity descending; every match comes
  from a candidate row \<open>e\<close> and its similarity is \<open>1 - cosine_distance (embedding e) qv\<close>;
  and a candidate whose non-zero embedding equals \<open>qv\<close> has similarity 1 and is the
  first match when the search runs without a fault, with a limit of at least 1, on
  candidates of the dimension of \<open>qv\<close>, every other candidate being at a positive
  distance. Nothing is said about the order of matches of
  equal similarity.
\<close>

theorem search_ranked_by_similarity:
  assumes enc: "encode_text m q = Some qv"
  shows "int (length (search_context (Some m) flt db q k allowed)) \<le> max 0 k \<and>
         sorted_wrt (\<lambda>a b. r_similarity b \<le> r_similarity a)
           (search_context (Some m) flt db q k allowed) \<and>
         (\<forall>r \<in> set (search_context (Some m) flt db q k allowed).
            \<exists>(e, me) \<in> set (candidates db allowed).
              r = format_row qv (e, me) \<and>
              r_similarity r = 1 - cosine_distance (embedding e) qv) \<and>
         (\<forall>e me. (e, me) \<in> set (candidates db allowed) \<and> embedding e = qv \<and>
                  dot qv qv \<noteq> 0 \<and> 1 \<le> k \<and>
                  \<not> connect_fails flt \<and> \<not> fetch_fails flt \<and> \<not> close_fails flt \<and>
                  (\<forall>(e', me') \<in> set (candidates db allowed).
                      length (embedding e') = length qv \<and>
                      (e' \<noteq> e \<longrightarrow> 0 < cosine_distance (embedding e') qv)) \<longrightarrow>
                  hd (search_context (Some m) flt db q k allowed) = format_row qv (e, me) \<and>
                  r_similarity (hd (search_context (Some m) flt db q k allowed)) = 1)"
proof (intro conjI allI impI ballI)
  let ?res = "search_context (Some m) flt db q k allowed"
  let ?S = "sort_key (distance_key qv) (candidates db allowed)"
  note eq = search_context_eq [OF enc, of flt db k allowed]
  show "int (length ?res) \<le> max 0 k"
    by (auto simp: eq)
  show "sorted_wrt (\<lambda>a b. r_similarity b \<le> r_similarity a) ?res"
    by (simp add: eq search_sorted)
  show "\<exists>(e, me) \<in> set (candidates db allowed).
      r = format_row qv (e, me) \<and> r_similarity r = 1 - cosine_distance (embedding e) qv"
    if "r \<in> set ?res" for r
  proof -
    from search_context_rows [OF that] enc obtain e me where
      "(e, me) \<in> set (candidates db allowed)" "r = format_row qv (e, me)"
      by auto
    then show ?thesis by (auto simp: format_row_fields)
  qed
  fix e me
  assume A: "(e, me) \<in> set (candidates db allowed) \<and> embedding e = qv \<and>
      dot qv qv \<noteq> 0 \<and> 1 \<le> k \<and>
      \<not> connect_fails flt \<and> \<not> fetch_fails flt \<and> \<not> close_fails flt \<and>
      (\<forall>(e', me') \<in> set (candidates db allowed).
          length (embedding e') = length qv \<and>
          (e' \<noteq> e \<longrightarrow> 0 < cosine_distance (embedding e') qv))"
  from A have dims: "\<not> list_ex (\<lambda>(e, m). length (embedding e) \<noteq> length qv)
      (candidates db allowed)"
    by (auto simp: list_ex_iff)
  from A have mem: "(e, me) \<in> set (candidates db allowed)" by simp
  from sort_key_hd_least [OF mem, of "distance_key qv"] have
    ne: "?S \<noteq> []" and hd_mem: "hd ?S \<in> set (candidates db allowed)" and
    le: "distance_key qv (hd ?S) \<le> distance_key qv (e, me)"
    by simp_all
  obtain e' me' where hd: "hd ?S = (e', me')" by (cases "hd ?S")
  from A have "distance_key qv (e, me) = 0"
    by (simp add: distance_key_def cosine_distance_self)
  with le hd have "cosine_distance (embedding e') qv \<le> 0"
    by (simp add: distance_key_def)
  with A hd_mem hd have "e' = e" by fastforce
  moreover from hd_mem hd mem candidates_joined [of db allowed]
  have "map_of (meetings db) (meeting_id e') = Some me'"
    "map_of (meetings db) (meeting_id e) = Some me"
    by (auto dest: joined_rows_mem)
  ultimately have "hd ?S = (e, me)" using hd by simp
  moreover from A have "0 < nat k" by simp
  ultimately have "hd (map (format_row qv) (take (nat k) ?S)) = format_row qv (e, me)"
    using ne by (simp add: hd_map hd_take)
  with A dims show hdr: "hd ?res = format_row qv (e, me)"
    by (simp add: eq)
  from A show "r_similarity (hd ?res) = 1"
    unfolding hdr by (simp add: format_row_fields cosine_distance_self)
qed

subsection \<open>Ties, and the unavailable provider\<close>

lemma tied_candidates:
  "candidates tied_store None =
     [(\<lparr>meeting_id = ''m2'', chunk_index = 0, content = ''beta'', embedding = first_axis\<rparr>,
       \<lparr>title = ''Review'', created_at = None\<rparr>),
      (\<lparr>meeting_id = ''m1'', chunk_index = 0, content = ''alpha'', embedding = first_axis\<rparr>,
       \<lparr>title = ''Planning'', created_at = Some ''2024-01-01T00:00:00''\<rparr>)]"
  by (simp add: candidates_def truthy_ids_def joined_rows_def tied_store_def
      example_meetings_def)

lemma tied_search:
  "search_context (Some example_provider) no_faults tied_store q 5 None =
     [\<lparr>r_text = ''beta'', r_meeting_id = ''m2'', r_meeting_title = ''Review'',
       r_meeting_date = [], r_similarity = 1, r_chunk_index = 0\<rparr>,
      \<lparr>r_text = ''alpha'', r_meeting_id = ''m1'', r_meeting_title = ''Planning'',
       r_meeting_date = ''2024-01-01T00:00:00'', r_similarity = 1, r_chunk_index = 0\<rparr>]"
  by (simp add: search_context_def fetch_def example_provider_def no_faults_def
      tied_candidates distance_key_def axis_distances axis_length format_row_def)

text \<open>
  C5 (as stated) fails: two chunks of equal similarity come back in storage order,
  \<open>m2\<close> before \<open>m1\<close>, not ordered by document identifier.
\<close>

theorem search_ties_in_storage_order:
  "map r_meeting_id
     (search_context (Some example_provider) no_faults tied_store ''beta'' 5 None) =
     [''m2'', ''m1''] \<and>
   map r_similarity
     (search_context (Some example_provider) no_faults tied_store ''beta'' 5 None) = [1, 1]"
  by (simp add: tied_search)

text \<open>C5, at the store \<open>ranked_store\<close> and the limit 5.\<close>

theorem search_ranked_by_similarity_witness:
  "encode_text example_provider ''beta'' = Some first_axis \<and>
   int (length (search_context (Some example_provider) no_faults ranked_store ''beta'' 5 None))
     \<le> max 0 5 \<and>
   sorted_wrt (\<lambda>a b. r_similarity b \<le> r_similarity a)
     (search_context (Some example_provider) no_faults ranked_store ''beta'' 5 None) \<and>
   map r_similarity
     (search_context (Some example_provider) no_faults ranked_store ''beta'' 5 None) = [1, 0] \<and>
   r_meeting_id
     (hd (search_context (Some example_provider) no_faults ranked_store ''beta'' 5 None)) = ''m2''"
proof -
  have enc: "encode_text example_provider ''beta'' = Some first_axis"
    by (simp add: example_provider_def)
  from search_ranked_by_similarity [OF enc, of no_faults ranked_store 5 None]
  have "int (length (search_context (Some example_provider) no_faults ranked_store ''beta'' 5 None))
      \<le> max 0 5 \<and>
    sorted_wrt (\<lambda>a b. r_similarity b \<le> r_similarity a)
      (search_context (Some example_provider) no_faults ranked_store ''beta'' 5 None)"
    by blast
  with enc show ?thesis by (simp add: ranked_search_all)
qed

text \<open>
  C2, at the store \<open>ranked_store\<close>: the chunk of \<open>m2\<close> scores higher and leads the
  unrestricted search, and the search restricted to \<open>m1\<close> returns the chunk of \<open>m1\<close>
  only.
\<close>

theorem search_respects_allow_list_witness:
  "[''m1''] \<noteq> [] \<and>
   r_meeting_id `
     set (search_context (Some example_provider) no_faults ranked_store ''beta'' 5
            (Some [''m1''])) \<subseteq> set [''m1''] \<and>
   map r_meeting_id
     (search_context (Some example_provider) no_faults ranked_store ''beta'' 5 (Some [''m1''])) =
     [''m1''] \<and>
   map r_similarity
     (search_context (Some example_provider) no_faults ranked_store ''beta'' 5 None) = [1, 0] \<and>
   map r_meeting_id
     (search_context (Some example_provider) no_faults ranked_store ''beta'' 5 None) =
     [''m2'', ''m1'']"
proof -
  have ne: "[''m1''] \<noteq> []" by simp
  from search_respects_allow_list [OF ne]
  have "r_meeting_id `
     set (search_context (Some example_provider) no_faults ranked_store ''beta'' 5
            (Some [''m1''])) \<subseteq> set [''m1'']"
    by blast
  then show ?thesis by (simp add: ranked_search_all ranked_search_m1)
qed

text \<open>
  C3 (as amended). When the provider is unavailable, because the model is \<open>None\<close> or
  because the call to \<open>encode\<close> raises, \<open>store_meeting_embeddings\<close> returns 0 and
  leaves the store as it was, and \<open>search_context\<close> returns the empty list.
\<close>

theorem provider_unavailable_returns_empty:
  "store_meeting_embeddings None flt db mid ti da ts = Some (0, db) \<and>
   search_context None flt db q k allowed = [] \<and>
   ((\<forall>cs. encode_batch m cs = None) \<longrightarrow>
      store_meeting_embeddings (Some m) flt db mid ti da ts = Some (0, db)) \<and>
   (encode_text m q = None \<longrightarrow> search_context (Some m) flt db q k allowed = [])"
proof -
  obtain chunks where "chunk_transcript (full_text_of ts) 500 100 = Some chunks"
    using chunk_transcript_default_total by blast
  then have "(\<forall>cs. encode_batch m cs = None) \<longrightarrow>
      store_meeting_embeddings (Some m) flt db mid ti da ts = Some (0, db)"
    by (auto simp: store_meeting_embeddings_def Let_def)
  then show ?thesis
    by (simp add: store_meeting_embeddings_def search_context_def)
qed

text \<open>C3, at a provider whose every call raises.\<close>

theorem provider_unavailable_returns_empty_witness:
  "(\<forall>cs. encode_batch broken_provider cs = None) \<and>
   encode_text broken_provider ''hello'' = None \<and>
   store_meeting_embeddings (Some broken_provider) no_faults hello_store ''m1'' ''Planning''
     ''2024-01-01'' [[''text'' \<mapsto> ''hello world'']] = Some (0, hello_store) \<and>
   search_context (Some broken_provider) no_faults hello_store ''hello'' 5 None = []"
proof -
  have h: "\<forall>cs. encode_batch broken_provider cs = None"
    "encode_text broken_provider ''hello'' = None"
    by (simp_all add: broken_provider_def)
  with provider_unavailable_returns_empty
    [of no_faults hello_store "''m1''" "''Planning''" "''2024-01-01''"
        "[[''text'' \<mapsto> ''hello world'']]" "''hello''" 5 None broken_provider]
  show ?thesis by blast
qed

lemma hello_candidates: "candidates hello_store (Some [''m2'']) = []"
  by (simp add: candidates_def truthy_ids_def id_list_def joined_rows_def hello_store_def
      example_meetings_def)

text \<open>
  C3 (as stated) fails: without a provider the refresh returns the same value as a
  refresh with nothing to index, and the search the same value as a search without
  matches.
\<close>

theorem provider_unavailable_indistinguishable:
  "store_meeting_embeddings None no_faults hello_store ''m1'' ''Planning'' ''2024-01-01''
     [[''text'' \<mapsto> ''hello world'']] = Some (0, hello_store) \<and>
   store_meeting_embeddings (Some example_provider) no_faults hello_store ''m1'' ''Planning''
     ''2024-01-01'' [] = Some (0, hello_store) \<and>
   search_context None no_faults hello_store ''hello'' 5 (Some [''m2'']) = [] \<and>
   search_context (Some example_provider) no_faults hello_store ''hello'' 5 (Some [''m2'']) = []"
  by (simp add: refresh_empty_input)
     (simp add: store_meeting_embeddings_def search_context_def fetch_def hello_candidates
        example_provider_def no_faults_def)

subsection \<open>A refresh of a store that holds chunks\<close>

lemma long_text_length: "length long_text = 602"
  by (simp add: long_text_def)

lemma long_text_nth:
  "k < 602 \<Longrightarrow> long_text ! k =
     (if k < 300 then CHR ''a'' else if k = 300 then CHR ''.''
      else if k = 301 then CHR '' '' else CHR ''b'')"
  by (auto simp: long_text_def nth_append nth_Cons split: nat.splits)

lemma long_text_matches: "matches_at long_text ''. '' k \<longleftrightarrow> k = 300"
proof
  assume m: "matches_at long_text ''. '' k"
  then have "drop k long_text \<noteq> []"
    by (auto simp: matches_at_def)
  then have k: "k < 602"
    by (simp add: long_text_length)
  from m have "hd (drop k long_text) = CHR ''.''"
    by (cases "drop k long_text") (auto simp: matches_at_def)
  with k have "long_text ! k = CHR ''.''"
    by (simp add: hd_drop_conv_nth long_text_length)
  with k show "k = 300"
    by (simp add: long_text_nth split: if_splits)
next
  assume "k = 300"
  then show "matches_at long_text ''. '' k"
    by (simp add: matches_at_def long_text_def)
qed

lemma filter_single:
  "a \<le> p \<Longrightarrow> p < b \<Longrightarrow> filter (\<lambda>k. k = p) [a..<b] = [p]"
  by (induction b) (auto simp: filter_empty_conv)

lemma long_text_rfind: "rfind long_text ''. '' 0 500 = 300"
proof -
  have "filter (\<lambda>k. k + length ''. '' \<le> 500 \<and> matches_at long_text ''. '' k) [0..<500] =
      filter (\<lambda>k. k = 300) [0..<500]"
    by (rule filter_cong) (auto simp: long_text_matches)
  also have "\<dots> = [300]"
    by (rule filter_single) simp_all
  finally show ?thesis
    by (simp add: rfind_def slice_index_def long_text_length)
qed

lemma long_text_windows:
  "window_end long_text 500 0 = 301"
  "window_end long_text 500 201 = 701"
  by (simp_all add: window_end_def long_text_length separators_def long_text_rfind)

lemma strip_id:
  "s \<noteq> [] \<Longrightarrow> \<not> is_space (hd s) \<Longrightarrow> \<not> is_space (last s) \<Longrightarrow> strip s = s"
proof -
  assume s: "s \<noteq> []" "\<not> is_space (hd s)" "\<not> is_space (last s)"
  then have "dropWhile is_space s = s"
    by (simp add: dropWhile_eq_self_iff)
  moreover from s have "dropWhile is_space (rev s) = rev s"
    by (simp add: dropWhile_eq_self_iff hd_rev)
  ultimately show ?thesis
    by (simp add: strip_def)
qed

lemma long_text_slices:
  "strip (py_slice long_text 0 301) = first_chunk"
  "strip (py_slice long_text 201 701) = second_chunk"
proof -
  have "py_slice long_text 0 301 = first_chunk"
    by (simp add: py_slice_def slice_index_def long_text_def first_chunk_def)
  moreover have "strip first_chunk = first_chunk"
    by (rule strip_id) (simp_all add: first_chunk_def is_space_def)
  ultimately show "strip (py_slice long_text 0 301) = first_chunk" by simp
  have "py_slice long_text 201 701 = second_chunk"
    by (simp add: py_slice_def slice_index_def long_text_def second_chunk_def)
  moreover have "strip second_chunk = second_chunk"
    by (rule strip_id) (simp_all add: second_chunk_def is_space_def)
  ultimately show "strip (py_slice long_text 201 701) = second_chunk" by simp
qed

lemma chunks_nonempty: "first_chunk \<noteq> []" "second_chunk \<noteq> []" "first_chunk \<noteq> second_chunk"
proof -
  have "length first_chunk = 301" "length second_chunk = 401"
    by (simp_all add: first_chunk_def second_chunk_def)
  then show "first_chunk \<noteq> []" "second_chunk \<noteq> []" "first_chunk \<noteq> second_chunk"
    by auto
qed

lemma long_text_nonempty: "long_text \<noteq> []"
  using long_text_length by auto

lemma long_text_chunks:
  "chunk_transcript long_text 500 100 = Some [first_chunk, second_chunk]"
  by (simp add: chunk_transcript_def chunk_loop_step chunk_loop_stop long_text_length
      long_text_windows long_text_slices chunks_nonempty long_text_nonempty)

lemma executemany_insert_ok:
  "insert_fails_at flt = None \<Longrightarrow>
   \<forall>r \<in> set rs. map_of (meetings d) (meeting_id r) \<noteq> None \<and>
      length (embedding r) = embedding_dim \<Longrightarrow>
   executemany_insert flt k rs d = Inr (d\<lparr>meeting_embeddings := meeting_embeddings d @ rs\<rparr>)"
  by (induction rs arbitrary: k d) auto

lemma build_records_embedding:
  "r \<in> set (build_records mid chunks vs) \<Longrightarrow> embedding r \<in> set vs"
  by (auto simp: build_records_def in_set_enumerate_eq dest: set_zip_rightD)

lemma refresh_example:
  assumes "chunk_transcript (full_text_of ts) 500 100 = Some chunks" and "chunks \<noteq> []"
    and "strip (full_text_of ts) \<noteq> []" and "map_of (meetings db) mid \<noteq> None"
  shows "store_meeting_embeddings (Some example_provider) no_faults db mid ti da ts =
     Some (int (length chunks), refreshed db mid chunks (map (\<lambda>c. first_axis) chunks))"
proof -
  let ?d = "db\<lparr>meeting_embeddings := filter (\<lambda>r. meeting_id r \<noteq> mid) (meeting_embeddings db)\<rparr>"
  let ?rs = "build_records mid chunks (map (\<lambda>c. first_axis) chunks)"
  have "map_of (meetings ?d) (meeting_id r) \<noteq> None \<and> length (embedding r) = embedding_dim"
    if "r \<in> set ?rs" for r
    using build_records_meeting_id [OF that] build_records_embedding [OF that] assms(4)
    by (auto simp: embedding_dim_def axis_length)
  then have "\<forall>r \<in> set ?rs. map_of (meetings ?d) (meeting_id r) \<noteq> None \<and>
      length (embedding r) = embedding_dim"
    by blast
  then have "executemany_insert no_faults 0 ?rs ?d =
      Inr (?d\<lparr>meeting_embeddings := meeting_embeddings ?d @ ?rs\<rparr>)"
    by (intro executemany_insert_ok) (simp_all add: no_faults_def)
  with assms(1,2,3) show ?thesis
    by (simp add: store_meeting_embeddings_def example_provider_def transaction_def
        delete_meeting_def refreshed_def no_faults_def)
qed

lemma long_text_full: "full_text_of [[''text'' \<mapsto> long_text]] = long_text"
  by (simp add: full_text_of_def truthy_text_def get_text_def long_text_nonempty)

lemma long_text_strip: "strip long_text = long_text"
  by (rule strip_id) (simp_all add: long_text_def is_space_def)

lemma refresh_busy:
  "store_meeting_embeddings (Some example_provider) no_faults busy_store ''m1'' ti da
     [[''text'' \<mapsto> long_text]] = Some (2, long_store)"
proof -
  have "refreshed busy_store ''m1'' [first_chunk, second_chunk] [first_axis, first_axis] =
      long_store"
    by (simp add: refreshed_def busy_store_def long_store_def build_records_def)
  moreover have "map_of (meetings busy_store) ''m1'' \<noteq> None"
    by (simp add: busy_store_def example_meetings_def)
  ultimately show ?thesis
    using refresh_example [of "[[''text'' \<mapsto> long_text]]" "[first_chunk, second_chunk]"
        busy_store "''m1''" ti da]
    by (simp add: long_text_full long_text_chunks long_text_strip long_text_nonempty)
qed

lemma refresh_stale:
  "store_meeting_embeddings (Some example_provider) no_faults stale_store ''m1'' ti da
     [[''text'' \<mapsto> long_text]] = Some (2, long_store)"
proof -
  have "refreshed stale_store ''m1'' [first_chunk, second_chunk] [first_axis, first_axis] =
      long_store"
    by (simp add: refreshed_def stale_store_def long_store_def build_records_def)
  moreover have "map_of (meetings stale_store) ''m1'' \<noteq> None"
    by (simp add: stale_store_def example_meetings_def)
  ultimately show ?thesis
    using refresh_example [of "[[''text'' \<mapsto> long_text]]" "[first_chunk, second_chunk]"
        stale_store "''m1''" ti da]
    by (simp add: long_text_full long_text_chunks long_text_strip long_text_nonempty)
qed

lemma example_rows:
  "map content (rows_of busy_store ''m1'') = [''old one'', ''old two'']"
  "map content (rows_of busy_store ''m2'') = [''beta'']"
  "map chunk_index (rows_of stale_store ''m1'') = [0, 1, 2]"
  "map content (rows_of long_store ''m1'') = [first_chunk, second_chunk]"
  "map chunk_index (rows_of long_store ''m1'') = [0, 1]"
  "map content (rows_of long_store ''m2'') = [''beta'']"
  by (simp_all add: rows_of_def busy_store_def stale_store_def long_store_def)

lemma long_store_search:
  "map r_chunk_index
     (search_context (Some example_provider) no_faults long_store q 5 (Some [''m1''])) = [0, 1]"
  "map r_text
     (search_context (Some example_provider) no_faults long_store q 5 (Some [''m1''])) =
     [first_chunk, second_chunk]"
  by (simp_all add: search_context_def fetch_def example_provider_def no_faults_def
      candidates_def truthy_ids_def id_list_def joined_rows_def long_store_def
      example_meetings_def distance_key_def axis_distances axis_length format_row_def)

section \<open>The claims about refresh\<close>

lemma store_committed:
  assumes ok: "provider_ok m"
    and st: "store_meeting_embeddings (Some m) flt db mid ti da ts = Some (n, db')"
    and pos: "0 < n"
  shows "\<exists>chunks vs. chunk_transcript (full_text_of ts) 500 100 = Some chunks \<and>
           chunks \<noteq> [] \<and> strip (full_text_of ts) \<noteq> [] \<and>
           encode_batch m chunks = Some vs \<and> length vs = length chunks \<and>
           n = int (length chunks) \<and> db' = refreshed db mid chunks vs \<and>
           rows_of db' mid = build_records mid chunks vs \<and>
           \<not> connect_fails flt \<and> \<not> delete_fails flt \<and> \<not> commit_fails flt \<and>
           (\<forall>j. insert_fails_at flt = Some j \<longrightarrow> length chunks \<le> j)"
proof -
  from store_success [OF st pos] obtain chunks vs where
    f: "chunk_transcript (full_text_of ts) 500 100 = Some chunks" "chunks \<noteq> []"
      "strip (full_text_of ts) \<noteq> []" "encode_batch m chunks = Some vs"
      "n = int (length chunks)" "db' = refreshed db mid chunks vs"
      "\<not> connect_fails flt" "\<not> delete_fails flt" "\<not> commit_fails flt"
      "\<forall>j. insert_fails_at flt = Some j \<longrightarrow> min (length chunks) (length vs) \<le> j"
    by auto
  from ok f(4) have len: "length vs = length chunks"
    by (simp add: provider_ok_def)
  moreover from f(6) have "rows_of db' mid = build_records mid chunks vs"
    by (simp add: rows_of_refreshed)
  ultimately show ?thesis using f by auto
qed

text \<open>
  C1 (as amended). When a refresh of \<open>mid\<close> by a provider that returns one vector
  per chunk reports a positive count \<open>n\<close>, the rows stored for \<open>mid\<close> are exactly the
  chunks derived from the input text, \<open>n\<close> of them and none of the earlier ones, and
  the rows of every other document are untouched. A refresh whose input text is
  blank returns 0 and leaves the store as it was.
\<close>

theorem refresh_replaces_chunks:
  assumes "provider_ok m"
    and "store_meeting_embeddings (Some m) flt db mid ti da ts = Some (n, db')"
  shows "(0 < n \<longrightarrow>
            chunk_transcript (full_text_of ts) 500 100 = Some (map content (rows_of db' mid)) \<and>
            int (length (rows_of db' mid)) = n \<and>
            (\<forall>mid'. mid' \<noteq> mid \<longrightarrow> rows_of db' mid' = rows_of db mid')) \<and>
         (strip (full_text_of ts) = [] \<longrightarrow> n = 0 \<and> db' = db)"
proof (intro conjI impI)
  assume pos: "0 < n"
  from store_committed [OF assms pos] obtain chunks vs where
    f: "chunk_transcript (full_text_of ts) 500 100 = Some chunks"
      "length vs = length chunks" "n = int (length chunks)"
      "db' = refreshed db mid chunks vs" "rows_of db' mid = build_records mid chunks vs"
    by blast
  from f(2,5) have c: "map content (rows_of db' mid) = chunks"
    by (simp add: build_records_content)
  with f(1) show "chunk_transcript (full_text_of ts) 500 100 =
      Some (map content (rows_of db' mid))"
    by simp
  from f(2,3,5) show "int (length (rows_of db' mid)) = n"
    by (simp add: build_records_length)
  from f(4) show "\<forall>mid'. mid' \<noteq> mid \<longrightarrow> rows_of db' mid' = rows_of db mid'"
    by (simp add: rows_of_refreshed_other)
next
  assume "strip (full_text_of ts) = []"
  with assms(2) show "n = 0" "db' = db"
    by (simp_all add: store_meeting_embeddings_def)
qed

lemma hello_rows: "rows_of hello_store ''m1'' =
    [\<lparr>meeting_id = ''m1'', chunk_index = 0, content = ''hello world'',
      embedding = first_axis\<rparr>]"
  by (simp add: rows_of_def hello_store_def)

text \<open>
  C1, at a refresh of \<open>m1\<close> in a store where \<open>m1\<close> holds two older chunks and \<open>m2\<close>
  one: afterwards \<open>m1\<close> holds the two chunks of the new text and neither of the older
  ones, and the chunk of \<open>m2\<close> is as before; and at a refresh with an empty input,
  which reports 0 and changes nothing.
\<close>

theorem refresh_replaces_chunks_witness:
  "store_meeting_embeddings (Some example_provider) no_faults busy_store ''m1'' ''Planning''
     ''2024-01-01'' [[''text'' \<mapsto> long_text]] = Some (2, long_store) \<and>
   map content (rows_of busy_store ''m1'') = [''old one'', ''old two''] \<and>
   chunk_transcript (full_text_of [[''text'' \<mapsto> long_text]]) 500 100 =
     Some (map content (rows_of long_store ''m1'')) \<and>
   map content (rows_of long_store ''m1'') = [first_chunk, second_chunk] \<and>
   int (length (rows_of long_store ''m1'')) = 2 \<and>
   rows_of long_store ''m2'' = rows_of busy_store ''m2'' \<and>
   map content (rows_of busy_store ''m2'') = [''beta''] \<and>
   strip (full_text_of []) = [] \<and>
   store_meeting_embeddings (Some example_provider) no_faults hello_store ''m1'' ''Planning''
     ''2024-01-01'' [] = Some (0, hello_store)"
proof -
  note st = refresh_busy [of "''Planning''" "''2024-01-01''"]
  from refresh_replaces_chunks [OF example_provider_ok st]
  have "chunk_transcript (full_text_of [[''text'' \<mapsto> long_text]]) 500 100 =
      Some (map content (rows_of long_store ''m1'')) \<and>
    int (length (rows_of long_store ''m1'')) = 2 \<and>
    rows_of long_store ''m2'' = rows_of busy_store ''m2''"
    by simp
  moreover note st2 = refresh_empty_input [of "''Planning''" "''2024-01-01''"]
  moreover have blank: "strip (full_text_of []) = []"
    by (simp add: full_text_of_def strip_def)
  moreover from refresh_replaces_chunks [OF example_provider_ok st2] blank
  have "(0::int) = 0 \<and> hello_store = hello_store"
    by blast
  ultimately show ?thesis
    using st by (simp add: example_rows)
qed

text \<open>
  C1 (as stated) fails in its scenario: after \<open>m1\<close> was refreshed with
  \<open>hello world\<close>, a refresh of \<open>m1\<close> with an empty input returns 0 and the chunk
  \<open>hello world\<close> is still stored for \<open>m1\<close>.
\<close>

theorem refresh_empty_keeps_chunks:
  "store_meeting_embeddings (Some example_provider) no_faults empty_store ''m1'' ''Planning''
     ''2024-01-01'' [[''text'' \<mapsto> ''hello world'']] = Some (1, hello_store) \<and>
   store_meeting_embeddings (Some example_provider) no_faults hello_store ''m1'' ''Planning''
     ''2024-01-01'' [] = Some (0, hello_store) \<and>
   map content (rows_of hello_store ''m1'') = [''hello world'']"
proof -
  have "map content (rows_of hello_store ''m1'') = [''hello world'']"
    by (simp add: hello_rows)
  with refresh_hello [of "''Planning''" "''2024-01-01''"]
    refresh_empty_input [of "''Planning''" "''2024-01-01''"]
  show ?thesis by blast
qed

text \<open>
  C4. A refresh by a provider that returns one vector per chunk is all-or-nothing:
  the store it leaves is either the store it found or the one in which the rows of
  \<open>mid\<close> are the complete new chunk set and every other document is untouched. If
  the connection, the delete, the commit or the insert of one of the records fails,
  the call reports 0 and the store is unchanged. A document that had chunks before
  the call has chunks after it.
\<close>

theorem refresh_all_or_nothing:
  assumes "provider_ok m"
    and "store_meeting_embeddings (Some m) flt db mid ti da ts = Some (n, db')"
  shows "(\<exists>n0 db0. store_meeting_embeddings (Some m) flt db mid ti da ts = Some (n0, db0)) \<and>
         (db' = db \<or>
          (\<exists>chunks vs. chunk_transcript (full_text_of ts) 500 100 = Some chunks \<and>
             chunks \<noteq> [] \<and> encode_batch m chunks = Some vs \<and>
             rows_of db' mid = build_records mid chunks vs \<and>
             map content (rows_of db' mid) = chunks)) \<and>
         (connect_fails flt \<or> delete_fails flt \<or> commit_fails flt \<or>
          (\<exists>chunks j. chunk_transcript (full_text_of ts) 500 100 = Some chunks \<and>
             insert_fails_at flt = Some j \<and> j < length chunks)
            \<longrightarrow> n = 0 \<and> db' = db) \<and>
         (rows_of db mid \<noteq> [] \<longrightarrow> rows_of db' mid \<noteq> []) \<and>
         (\<forall>mid'. mid' \<noteq> mid \<longrightarrow> rows_of db' mid' = rows_of db mid')"
proof -
  note st = assms(2)
  consider (unchanged) "n = 0" "db' = db"
    | (committed) chunks vs where
        "chunk_transcript (full_text_of ts) 500 100 = Some chunks" "chunks \<noteq> []"
        "encode_batch m chunks = Some vs" "db' = refreshed db mid chunks vs"
        "\<not> connect_fails flt" "\<not> delete_fails flt" "\<not> commit_fails flt"
        "\<forall>j. insert_fails_at flt = Some j \<longrightarrow> min (length chunks) (length vs) \<le> j"
    using store_outcome [OF st] by auto
  then have rest: "(db' = db \<or>
          (\<exists>chunks vs. chunk_transcript (full_text_of ts) 500 100 = Some chunks \<and>
             chunks \<noteq> [] \<and> encode_batch m chunks = Some vs \<and>
             rows_of db' mid = build_records mid chunks vs \<and>
             map content (rows_of db' mid) = chunks)) \<and>
         (connect_fails flt \<or> delete_fails flt \<or> commit_fails flt \<or>
          (\<exists>chunks j. chunk_transcript (full_text_of ts) 500 100 = Some chunks \<and>
             insert_fails_at flt = Some j \<and> j < length chunks)
            \<longrightarrow> n = 0 \<and> db' = db) \<and>
         (rows_of db mid \<noteq> [] \<longrightarrow> rows_of db' mid \<noteq> []) \<and>
         (\<forall>mid'. mid' \<noteq> mid \<longrightarrow> rows_of db' mid' = rows_of db mid')"
  proof cases
    case unchanged
    then show ?thesis by simp
  next
    case committed
    from assms(1) committed(3) have len: "length vs = length chunks"
      by (simp add: provider_ok_def)
    from committed(4) have rows: "rows_of db' mid = build_records mid chunks vs"
      by (simp add: rows_of_refreshed)
    with len have cont: "map content (rows_of db' mid) = chunks"
      by (simp add: build_records_content)
    with committed(2) have ne: "rows_of db' mid \<noteq> []"
      by auto
    from committed(4) have other: "\<forall>mid'. mid' \<noteq> mid \<longrightarrow> rows_of db' mid' = rows_of db mid'"
      by (simp add: rows_of_refreshed_other)
    have nofault: "\<not> (connect_fails flt \<or> delete_fails flt \<or> commit_fails flt \<or>
          (\<exists>chunks j. chunk_transcript (full_text_of ts) 500 100 = Some chunks \<and>
             insert_fails_at flt = Some j \<and> j < length chunks))"
      using committed(1,5,6,7,8) len by fastforce
    from committed(1,2,3) rows cont ne other nofault show ?thesis
      by blast
  qed
  have "\<exists>n0 db0. store_meeting_embeddings (Some m) flt db mid ti da ts = Some (n0, db0)"
    by (rule store_total)
  with rest show ?thesis by blast
qed

text \<open>
  C4, at a refresh of \<open>m1\<close> whose first insert raises after the delete: the chunk
  stored before is still there.
\<close>

theorem refresh_all_or_nothing_witness:
  "store_meeting_embeddings (Some example_provider) (no_faults\<lparr>insert_fails_at := Some 0\<rparr>)
     hello_store ''m1'' ''Planning'' ''2024-01-01'' [[''text'' \<mapsto> ''hello world'']] =
     Some (0, hello_store) \<and>
   insert_fails_at (no_faults\<lparr>insert_fails_at := Some 0\<rparr>) = Some 0 \<and>
   chunk_transcript (full_text_of [[''text'' \<mapsto> ''hello world'']]) 500 100 =
     Some [''hello world''] \<and>
   rows_of hello_store ''m1'' \<noteq> []"
proof -
  note st = refresh_insert_fault [of "''Planning''" "''2024-01-01''"]
  from refresh_all_or_nothing [OF example_provider_ok st]
  have "rows_of hello_store ''m1'' \<noteq> [] \<longrightarrow> rows_of hello_store ''m1'' \<noteq> []"
    by blast
  moreover have "rows_of hello_store ''m1'' \<noteq> []"
    by (simp add: hello_rows)
  ultimately show ?thesis
    using st by (simp add: full_text_hello chunks_hello)
qed

lemma pair_of_records:
  "map (\<lambda>r. (chunk_index r, content r)) (build_records mid chunks vs) =
     zip (map int [0..<min (length chunks) (length vs)]) (take (length vs) chunks)"
proof -
  have "map (\<lambda>r. (chunk_index r, content r)) rs = zip (map chunk_index rs) (map content rs)"
    for rs :: "embedding_row list"
    by (induction rs) auto
  then show ?thesis
    by (simp add: build_records_chunk_index build_records_content)
qed

text \<open>
  C8. After a refresh of \<open>mid\<close> that reports the positive count \<open>n\<close> (the provider
  returning one vector per chunk), the \<open>chunk_index\<close> values of the rows of \<open>mid\<close> are
  \<open>0, \<dots>, n - 1\<close> in storage order, the \<open>i\<close>-th row holding the \<open>i\<close>-th chunk of the
  input, and every match of a search on that store that belongs to \<open>mid\<close> carries an
  index in that range.
\<close>

theorem refresh_indexes_contiguous:
  assumes "provider_ok m"
    and "store_meeting_embeddings (Some m) flt db mid ti da ts = Some (n, db')"
    and "0 < n"
  shows "map chunk_index (rows_of db' mid) = map int [0..<nat n] \<and>
         (\<exists>chunks. chunk_transcript (full_text_of ts) 500 100 = Some chunks \<and>
            length chunks = nat n \<and>
            map (\<lambda>r. (chunk_index r, content r)) (rows_of db' mid) =
              zip (map int [0..<length chunks]) chunks) \<and>
         (\<forall>r \<in> set (search_context model' flt' db' q k allowed).
            r_meeting_id r = mid \<longrightarrow> 0 \<le> r_chunk_index r \<and> r_chunk_index r < n)"
proof -
  from store_committed [OF assms] obtain chunks vs where
    f: "chunk_transcript (full_text_of ts) 500 100 = Some chunks"
      "length vs = length chunks" "n = int (length chunks)"
      "rows_of db' mid = build_records mid chunks vs"
    by blast
  from f(2,3,4) have idx: "map chunk_index (rows_of db' mid) = map int [0..<nat n]"
    by (simp add: build_records_chunk_index)
  from f(2,4) have pairs: "map (\<lambda>r. (chunk_index r, content r)) (rows_of db' mid) =
      zip (map int [0..<length chunks]) chunks"
    by (simp add: pair_of_records)
  have "0 \<le> r_chunk_index r \<and> r_chunk_index r < n"
    if r: "r \<in> set (search_context model' flt' db' q k allowed)" and mid: "r_meeting_id r = mid"
    for r
  proof -
    from search_context_rows [OF r] obtain qv e me where
      c: "(e, me) \<in> set (candidates db' allowed)" and fr: "r = format_row qv (e, me)"
      by blast
    from c candidates_joined [of db' allowed] have "e \<in> set (meeting_embeddings db')"
      by (auto dest: joined_rows_mem)
    moreover from fr mid have "meeting_id e = mid"
      by (simp add: format_row_fields)
    ultimately have "e \<in> set (rows_of db' mid)"
      by (simp add: rows_of_def)
    then have "chunk_index e \<in> set (map chunk_index (rows_of db' mid))"
      by simp
    with idx have "chunk_index e \<in> int ` {0..<nat n}"
      by simp
    with fr show ?thesis
      by (auto simp: format_row_fields)
  qed
  with idx pairs f(1,3) show ?thesis by auto
qed

text \<open>
  C8, at a refresh of \<open>m1\<close> in a store where \<open>m1\<close> holds three older chunks with the
  indices 0, 1, 2: afterwards its rows carry the indices 0, 1 with the first and the
  second chunk of the new text, and a search restricted to \<open>m1\<close> returns these
  indices.
\<close>

theorem refresh_indexes_contiguous_witness:
  "store_meeting_embeddings (Some example_provider) no_faults stale_store ''m1'' ''Planning''
     ''2024-01-01'' [[''text'' \<mapsto> long_text]] = Some (2, long_store) \<and>
   (0::int) < 2 \<and>
   map chunk_index (rows_of stale_store ''m1'') = [0, 1, 2] \<and>
   map chunk_index (rows_of long_store ''m1'') = map int [0..<nat 2] \<and>
   map chunk_index (rows_of long_store ''m1'') = [0, 1] \<and>
   map (\<lambda>r. (chunk_index r, content r)) (rows_of long_store ''m1'') =
     zip (map int [0..<2]) [first_chunk, second_chunk] \<and>
   map r_chunk_index
     (search_context (Some example_provider) no_faults long_store ''aaa'' 5 (Some [''m1''])) =
     [0, 1]"
proof -
  note st = refresh_stale [of "''Planning''" "''2024-01-01''"]
  have pos: "(0::int) < 2" by simp
  from refresh_indexes_contiguous [OF example_provider_ok st pos]
  have "map chunk_index (rows_of long_store ''m1'') = map int [0..<nat 2] \<and>
    (\<exists>chunks. chunk_transcript (full_text_of [[''text'' \<mapsto> long_text]]) 500 100 = Some chunks \<and>
       length chunks = nat 2 \<and>
       map (\<lambda>r. (chunk_index r, content r)) (rows_of long_store ''m1'') =
         zip (map int [0..<length chunks]) chunks)"
    by blast
  then have "map chunk_index (rows_of long_store ''m1'') = map int [0..<nat 2] \<and>
    map (\<lambda>r. (chunk_index r, content r)) (rows_of long_store ''m1'') =
      zip (map int [0..<2]) [first_chunk, second_chunk]"
    by (auto simp: long_text_full long_text_chunks)
  with st show ?thesis
    by (simp add: example_rows long_store_search)
qed

end
